theory Spec2Isabelle
  imports Complex_Main "HOL-Library.Word" "HOL-Library.Sublist" "HOL-Library.Multiset"
begin

section \<open>Strings of the JavaScript runtime\<close>

text \<open>
  A JavaScript string is a finite sequence of UTF-16 code units. The helper \<open>js\<close> writes
  an ASCII literal as such a sequence.
\<close>

type_synonym jschar = "16 word"
type_synonym jsstring = "jschar list"

definition js :: "string \<Rightarrow> jsstring" where
  "js s = map (\<lambda>c. word_of_nat (of_char c)) s"

text \<open>
  \<^verbatim>\<open>String.prototype.trim\<close> strips, from both ends, the code units that ECMAScript
  calls WhiteSpace or LineTerminator: TAB, LF, VT, FF, CR, SP, NBSP, U+1680,
  U+2000..U+200A, U+2028, U+2029, U+202F, U+205F, U+3000 and U+FEFF.
\<close>

definition isWhiteSpace :: "jschar \<Rightarrow> bool" where
  "isWhiteSpace c \<longleftrightarrow>
     c = 0x0009 \<or> c = 0x000A \<or> c = 0x000B \<or> c = 0x000C \<or> c = 0x000D \<or>
     c = 0x0020 \<or> c = 0x00A0 \<or> c = 0x1680 \<or> (0x2000 \<le> c \<and> c \<le> 0x200A) \<or>
     c = 0x2028 \<or> c = 0x2029 \<or> c = 0x202F \<or> c = 0x205F \<or> c = 0x3000 \<or>
     c = 0xFEFF"

definition trim :: "jsstring \<Rightarrow> jsstring" where
  "trim s = rev (dropWhile isWhiteSpace (rev (dropWhile isWhiteSpace s)))"

text \<open>
  \<^verbatim>\<open>String.prototype.includes\<close>: the argument occurs in the receiver as a contiguous
  run of code units.
\<close>

fun includes_js :: "jsstring \<Rightarrow> jsstring \<Rightarrow> bool" where
  "includes_js [] q = (q = [])"
| "includes_js (c # cs) q = (prefix q (c # cs) \<or> includes_js cs q)"

section \<open>Data model\<close>

text \<open>
  The \<^verbatim>\<open>Task\<close> typedef of \<^verbatim>\<open>App.js\<close>. The timestamps are readings of
  \<^verbatim>\<open>Date.now()\<close>, milliseconds since the epoch.
\<close>

record task =
  id_t :: jsstring
  title :: jsstring
  completed :: bool
  createdAt :: int
  updatedAt :: int

text \<open>The filter tab: the component only ever stores one of its three literals.\<close>

datatype filter_tab = All | Active | Completed

text \<open>
  The \<^verbatim>\<open>useState\<close> cells of the \<^verbatim>\<open>App\<close> component. \<open>editingId\<close> is
  \<^verbatim>\<open>null\<close> (here \<open>None\<close>) or a task id.
\<close>

record state =
  theme :: jsstring
  tasks :: "task list"
  filter_s :: filter_tab
  query :: jsstring
  draft :: jsstring
  editingId :: "jsstring option"
  editingTitle :: jsstring

section \<open>Operations\<close>

text \<open>
  Each handler runs to completion on the state of the render it closes over, and its
  \<^verbatim>\<open>setX\<close> calls produce the next state. The two reads of the environment are
  arguments. In \<open>addTask\<close>, \<open>now\<close> is the value of its one \<^verbatim>\<open>Date.now()\<close> and
  \<open>newId\<close> the value of \<^verbatim>\<open>uid()\<close>, that is
  \<^verbatim>\<open>Math.random().toString(36).slice(2, 10)\<close>. In \<open>toggleTask\<close> and \<open>commitEdit\<close> the
  callback of \<^verbatim>\<open>prev.map\<close> reads \<^verbatim>\<open>Date.now()\<close> once for every task it rewrites:
  \<open>clock k\<close> is the \<open>k\<close>-th of these readings, counted from \<open>0\<close>.
\<close>

fun mapWithClock ::
  "(task \<Rightarrow> bool) \<Rightarrow> (int \<Rightarrow> task \<Rightarrow> task) \<Rightarrow> (nat \<Rightarrow> int) \<Rightarrow> nat \<Rightarrow> task list \<Rightarrow> task list" where
  "mapWithClock hit f clock k [] = []"
| "mapWithClock hit f clock k (t # ts) =
     (if hit t then f (clock k) t # mapWithClock hit f clock (Suc k) ts
      else t # mapWithClock hit f clock k ts)"

definition addTask :: "jsstring \<Rightarrow> int \<Rightarrow> jsstring \<Rightarrow> state \<Rightarrow> state" where
  "addTask ttl now newId s =
     (let trimmed = trim ttl in
      if trimmed = [] then s
      else
        let newTask = \<lparr>id_t = newId, title = trimmed, completed = False,
                        createdAt = now, updatedAt = now\<rparr>
        in s\<lparr>tasks := newTask # tasks s, draft := []\<rparr>)"

definition toggleTask :: "jsstring \<Rightarrow> (nat \<Rightarrow> int) \<Rightarrow> state \<Rightarrow> state" where
  "toggleTask x clock s =
     s\<lparr>tasks := mapWithClock (\<lambda>t. id_t t = x)
                  (\<lambda>now t. t\<lparr>completed := \<not> completed t, updatedAt := now\<rparr>)
                  clock 0 (tasks s)\<rparr>"

definition removeTask :: "jsstring \<Rightarrow> state \<Rightarrow> state" where
  "removeTask x s =
     (let s' = s\<lparr>tasks := filter (\<lambda>t. id_t t \<noteq> x) (tasks s)\<rparr>
      in if editingId s = Some x then s'\<lparr>editingId := None, editingTitle := []\<rparr> else s')"

definition beginEdit :: "task \<Rightarrow> state \<Rightarrow> state" where
  "beginEdit t s = s\<lparr>editingId := Some (id_t t), editingTitle := title t\<rparr>"

text \<open>
  \<^verbatim>\<open>if (!editingId) return;\<close> tests truthiness: \<^verbatim>\<open>null\<close> and the empty string
  both leave the handler.
\<close>

definition commitEdit :: "(nat \<Rightarrow> int) \<Rightarrow> state \<Rightarrow> state" where
  "commitEdit clock s =
     (let ttl = trim (editingTitle s) in
      case editingId s of
        None \<Rightarrow> s
      | Some x \<Rightarrow>
          if x = [] then s
          else if ttl = [] then removeTask x s
          else s\<lparr>tasks := mapWithClock (\<lambda>t. id_t t = x)
                              (\<lambda>now t. t\<lparr>title := ttl, updatedAt := now\<rparr>)
                              clock 0 (tasks s),
                  editingId := None, editingTitle := []\<rparr>)"

text \<open>The Escape key of the inline editor.\<close>

definition cancelEdit :: "state \<Rightarrow> state" where
  "cancelEdit s = s\<lparr>editingId := None, editingTitle := []\<rparr>"

definition clearCompleted :: "state \<Rightarrow> state" where
  "clearCompleted s = s\<lparr>tasks := filter (\<lambda>t. \<not> completed t) (tasks s)\<rparr>"

text \<open>
  The \<^verbatim>\<open>filtered\<close> memo. \<open>lower\<close> stands for \<^verbatim>\<open>String.prototype.toLowerCase\<close>,
  whose Unicode case tables belong to the runtime and not to this program; a non-empty
  \<open>q\<close> is truthy.
\<close>

definition filtered :: "(jsstring \<Rightarrow> jsstring) \<Rightarrow> state \<Rightarrow> task list" where
  "filtered lower s =
     (let q = lower (trim (query s)) in
      filter (\<lambda>t. if q \<noteq> [] then includes_js (lower (title t)) q else True)
        (filter (\<lambda>t. if filter_s s = Active then \<not> completed t
                      else if filter_s s = Completed then completed t
                      else True) (tasks s)))"

definition remaining :: "state \<Rightarrow> nat" where
  "remaining s = length (filter (\<lambda>t. \<not> completed t) (tasks s))"

text \<open>
  The state of the first render: \<open>savedTheme\<close> is what \<^verbatim>\<open>localStorage\<close> holds under
  \<^verbatim>\<open>theme\<close> and \<open>loaded\<close> is the collection the \<^verbatim>\<open>tasks\<close> initialiser produced.
\<close>

definition initialState :: "jsstring option \<Rightarrow> task list \<Rightarrow> state" where
  "initialState savedTheme loaded =
     \<lparr>theme = (case savedTheme of
                 None \<Rightarrow> js ''light''
               | Some t \<Rightarrow> if t = [] then js ''light'' else t),
      tasks = loaded, filter_s = All, query = [], draft = [],
      editingId = None, editingTitle = []\<rparr>"

text \<open>
  A session that only adds: each entry is the title typed, the clock reading and the
  identifier drawn for that call of \<open>addTask\<close>, in the order of the calls.
\<close>

fun addTasks :: "(jsstring \<times> int \<times> jsstring) list \<Rightarrow> state \<Rightarrow> state" where
  "addTasks [] s = s"
| "addTasks ((ttl, now, newId) # rest) s = addTasks rest (addTask ttl now newId s)"

text \<open>
  The projection as the specification words it: a task is kept when it passes the tab
  and its title contains the trimmed query, both compared in lower case.
\<close>

fun spec_passes :: "filter_tab \<Rightarrow> task \<Rightarrow> bool" where
  "spec_passes All t = True"
| "spec_passes Active t = (\<not> completed t)"
| "spec_passes Completed t = completed t"

definition spec_matches :: "(jsstring \<Rightarrow> jsstring) \<Rightarrow> jsstring \<Rightarrow> jsstring \<Rightarrow> bool" where
  "spec_matches lower q ttl = sublist (lower (trim q)) (lower ttl)"

definition spec_filterAndSearch ::
  "(jsstring \<Rightarrow> jsstring) \<Rightarrow> task list \<Rightarrow> filter_tab \<Rightarrow> jsstring \<Rightarrow> task list" where
  "spec_filterAndSearch lower ts f q =
     filter (\<lambda>t. spec_passes f t \<and> spec_matches lower q (title t)) ts"

text \<open>
  \<^verbatim>\<open>toLowerCase\<close> on strings of ASCII code units, for the examples.
\<close>

definition asciiLower :: "jsstring \<Rightarrow> jsstring" where
  "asciiLower s = map (\<lambda>c. if 0x41 \<le> c \<and> c \<le> 0x5A then c + 0x20 else c) s"

section \<open>Persisted tasks\<close>

text \<open>
  The tasks are stored as JSON text under the key \<^verbatim>\<open>tasks\<close> and read back with the
  runtime's \<^verbatim>\<open>JSON.parse\<close>, which is modelled here after the JSON grammar (ECMA-404).
  This is what it can return. An object is the list of its members in the order of the
  text; a later member with the same key overrides an earlier one when a property is
  read. A number is kept as the exact value of its decimal text: the rounding to a
  double that the runtime performs is not part of this model.
\<close>

datatype json =
    JNull
  | JBool bool
  | JNumber rat
  | JString jsstring
  | JArray "json list"
  | JObject "(jsstring \<times> json) list"

datatype js_error = SyntaxError | TypeError

subsection \<open>The JSON text grammar\<close>

datatype token =
    TLBracket | TRBracket | TLBrace | TRBrace | TComma | TColon
  | TStr jsstring
  | TAtom json

definition isJsonSpace :: "jschar \<Rightarrow> bool" where
  "isJsonSpace c \<longleftrightarrow> c = 0x09 \<or> c = 0x0A \<or> c = 0x0D \<or> c = 0x20"

definition isDigit :: "jschar \<Rightarrow> bool" where
  "isDigit c \<longleftrightarrow> 0x30 \<le> c \<and> c \<le> 0x39"

definition digitsValue :: "jsstring \<Rightarrow> nat" where
  "digitsValue ds = foldl (\<lambda>a d. 10 * a + (unat d - 48)) 0 ds"

definition hexValue :: "jschar \<Rightarrow> jschar option" where
  "hexValue c =
     (if 0x30 \<le> c \<and> c \<le> 0x39 then Some (c - 0x30)
      else if 0x41 \<le> c \<and> c \<le> 0x46 then Some (c - 0x37)
      else if 0x61 \<le> c \<and> c \<le> 0x66 then Some (c - 0x57)
      else None)"

definition hex4 :: "jsstring \<Rightarrow> jschar option" where
  "hex4 ds =
     (case map hexValue ds of
        [Some a, Some b, Some c, Some d] \<Rightarrow> Some (4096 * a + 256 * b + 16 * c + d)
      | _ \<Rightarrow> None)"

text \<open>The character after a backslash, other than \<^verbatim>\<open>u\<close>.\<close>

definition escape :: "jschar \<Rightarrow> jschar option" where
  "escape e =
     (if e = 0x22 \<or> e = 0x5C \<or> e = 0x2F then Some e
      else if e = 0x62 then Some 0x08
      else if e = 0x66 then Some 0x0C
      else if e = 0x6E then Some 0x0A
      else if e = 0x72 then Some 0x0D
      else if e = 0x74 then Some 0x09
      else None)"

text \<open>
  The body of a string, after its opening quote: the decoded code units and the text
  that follows the closing quote. Control characters must be escaped.
\<close>

fun lexString :: "jsstring \<Rightarrow> (jsstring \<times> jsstring) option" where
  "lexString [] = None"
| "lexString (c # cs) =
     (if c = 0x22 then Some ([], cs)
      else if c = 0x5C then
        (case cs of
           [] \<Rightarrow> None
         | e # r \<Rightarrow>
             if e = 0x75 then
               (case hex4 (take 4 r) of
                  None \<Rightarrow> None
                | Some u \<Rightarrow> map_option (\<lambda>(v, rest). (u # v, rest)) (lexString (drop 4 r)))
             else
               (case escape e of
                  None \<Rightarrow> None
                | Some u \<Rightarrow> map_option (\<lambda>(v, rest). (u # v, rest)) (lexString r)))
      else if c < 0x20 then None
      else map_option (\<lambda>(v, rest). (c # v, rest)) (lexString cs))"

text \<open>
  A number is an optional minus sign, an integer part without a leading zero, an
  optional fraction and an optional exponent.
\<close>

definition lexInt :: "jsstring \<Rightarrow> (jsstring \<times> jsstring) option" where
  "lexInt cs =
     (case cs of
        [] \<Rightarrow> None
      | c # r \<Rightarrow>
          if c = 0x30 then Some ([c], r)
          else if isDigit c then Some (takeWhile isDigit cs, dropWhile isDigit cs)
          else None)"

definition lexFrac :: "jsstring \<Rightarrow> (jsstring \<times> jsstring) option" where
  "lexFrac cs =
     (case cs of
        [] \<Rightarrow> Some ([], cs)
      | c # r \<Rightarrow>
          if c = 0x2E then
            (if takeWhile isDigit r = [] then None
             else Some (takeWhile isDigit r, dropWhile isDigit r))
          else Some ([], cs))"

definition lexExpDigits :: "bool \<Rightarrow> jsstring \<Rightarrow> (int \<times> jsstring) option" where
  "lexExpDigits neg cs =
     (if takeWhile isDigit cs = [] then None
      else Some ((if neg then - int (digitsValue (takeWhile isDigit cs))
                  else int (digitsValue (takeWhile isDigit cs))),
                 dropWhile isDigit cs))"

definition lexExp :: "jsstring \<Rightarrow> (int \<times> jsstring) option" where
  "lexExp cs =
     (case cs of
        [] \<Rightarrow> Some (0, cs)
      | c # r \<Rightarrow>
          if c = 0x65 \<or> c = 0x45 then
            (case r of
               [] \<Rightarrow> None
             | sg # r' \<Rightarrow>
                 if sg = 0x2D then lexExpDigits True r'
                 else if sg = 0x2B then lexExpDigits False r'
                 else lexExpDigits False r)
          else Some (0, cs))"

definition decimalValue :: "jsstring \<Rightarrow> jsstring \<Rightarrow> int \<Rightarrow> rat" where
  "decimalValue ints fracs e =
     (let mant = of_nat (digitsValue (ints @ fracs)) / 10 ^ length fracs
      in if 0 \<le> e then mant * 10 ^ nat e else mant / 10 ^ nat (- e))"

definition lexUnsigned :: "jsstring \<Rightarrow> (rat \<times> jsstring) option" where
  "lexUnsigned cs =
     (case lexInt cs of
        None \<Rightarrow> None
      | Some (ints, r1) \<Rightarrow>
          (case lexFrac r1 of
             None \<Rightarrow> None
           | Some (fracs, r2) \<Rightarrow>
               (case lexExp r2 of
                  None \<Rightarrow> None
                | Some (e, r3) \<Rightarrow> Some (decimalValue ints fracs e, r3))))"

definition lexNumber :: "jsstring \<Rightarrow> (rat \<times> jsstring) option" where
  "lexNumber cs =
     (case cs of
        [] \<Rightarrow> None
      | c # r \<Rightarrow>
          if c = 0x2D then map_option (\<lambda>(v, rest). (- v, rest)) (lexUnsigned r)
          else lexUnsigned cs)"

text \<open>The text as a list of tokens; \<open>None\<close> when some character fits no token.\<close>

function tokenize :: "jsstring \<Rightarrow> token list option" where
  "tokenize [] = Some []"
| "tokenize (c # cs) =
     (if isJsonSpace c then tokenize cs
      else if c = 0x5B then map_option ((#) TLBracket) (tokenize cs)
      else if c = 0x5D then map_option ((#) TRBracket) (tokenize cs)
      else if c = 0x7B then map_option ((#) TLBrace) (tokenize cs)
      else if c = 0x7D then map_option ((#) TRBrace) (tokenize cs)
      else if c = 0x2C then map_option ((#) TComma) (tokenize cs)
      else if c = 0x3A then map_option ((#) TColon) (tokenize cs)
      else if c = 0x22 then
        (case lexString cs of
           None \<Rightarrow> None
         | Some (v, r) \<Rightarrow> map_option ((#) (TStr v)) (tokenize r))
      else if c = 0x2D \<or> isDigit c then
        (case lexNumber (c # cs) of
           None \<Rightarrow> None
         | Some (v, r) \<Rightarrow> map_option ((#) (TAtom (JNumber v))) (tokenize r))
      else if take 4 (c # cs) = js ''null'' then
        map_option ((#) (TAtom JNull)) (tokenize (drop 3 cs))
      else if take 4 (c # cs) = js ''true'' then
        map_option ((#) (TAtom (JBool True))) (tokenize (drop 3 cs))
      else if take 5 (c # cs) = js ''false'' then
        map_option ((#) (TAtom (JBool False))) (tokenize (drop 4 cs))
      else None)"
  by pat_completeness auto
termination
proof -
  have str: "length r < length cs" if "lexString cs = Some (v, r)" for cs v r
    using that
  proof (induction cs arbitrary: v r rule: lexString.induct)
    case 1
    then show ?case by simp
  next
    case (2 c cs)
    then show ?case
      by (fastforce split: if_splits list.splits option.splits)
  qed
  have int: "length r < length cs" if "lexInt cs = Some (v, r)" for cs v r
    using that
    by (auto simp: lexInt_def less_Suc_eq_le length_dropWhile_le split: list.splits if_splits)
  have frac: "length r \<le> length cs" if "lexFrac cs = Some (v, r)" for cs v r
    using that
    by (auto simp: lexFrac_def le_SucI length_dropWhile_le split: list.splits if_splits)
  have expd: "length r \<le> length cs" if "lexExpDigits b cs = Some (v, r)" for b cs v r
    using that by (auto simp: lexExpDigits_def length_dropWhile_le split: if_splits)
  have exp: "length r \<le> length cs" if "lexExp cs = Some (v, r)" for cs v r
    using that by (auto simp: lexExp_def split: list.splits if_splits dest!: expd)
  have uns: "length r < length cs" if "lexUnsigned cs = Some (v, r)" for cs v r
    using that
    by (auto simp: lexUnsigned_def split: option.splits dest!: int frac exp)
  have num: "length r < length cs" if "lexNumber cs = Some (v, r)" for cs v r
    using that by (auto simp: lexNumber_def split: list.splits if_splits dest!: uns)
  show ?thesis
    by (relation "measure length") (auto dest: str num simp: less_Suc_eq_le)
qed

text \<open>
  The token list is read by a machine with a stack of open containers. A frame is an
  array with the elements read so far, or an object with the members read so far and
  the key whose value is being read. The mode says what may come next.
\<close>

datatype frame =
    InArray "json list"
  | InObject "(jsstring \<times> json) list" jsstring

datatype mode =
    Value
  | ValueOrEnd
  | KeyOrEnd
  | Key "(jsstring \<times> json) list"
  | ColonAfter "(jsstring \<times> json) list" jsstring
  | After json

fun startValue :: "frame list \<Rightarrow> token \<Rightarrow> (frame list \<times> mode) option" where
  "startValue st (TAtom v) = Some (st, After v)"
| "startValue st (TStr str) = Some (st, After (JString str))"
| "startValue st TLBracket = Some (InArray [] # st, ValueOrEnd)"
| "startValue st TLBrace = Some (st, KeyOrEnd)"
| "startValue st t = None"

fun closeValue :: "frame list \<Rightarrow> json \<Rightarrow> token \<Rightarrow> (frame list \<times> mode) option" where
  "closeValue (InArray acc # st) v TComma = Some (InArray (acc @ [v]) # st, Value)"
| "closeValue (InArray acc # st) v TRBracket = Some (st, After (JArray (acc @ [v])))"
| "closeValue (InObject acc k # st) v TComma = Some (st, Key (acc @ [(k, v)]))"
| "closeValue (InObject acc k # st) v TRBrace = Some (st, After (JObject (acc @ [(k, v)])))"
| "closeValue st v t = None"

fun step :: "frame list \<Rightarrow> mode \<Rightarrow> token \<Rightarrow> (frame list \<times> mode) option" where
  "step st Value t = startValue st t"
| "step st ValueOrEnd t =
     (if t = TRBracket then
        (case st of InArray [] # st' \<Rightarrow> Some (st', After (JArray [])) | _ \<Rightarrow> None)
      else startValue st t)"
| "step st KeyOrEnd t =
     (case t of
        TRBrace \<Rightarrow> Some (st, After (JObject []))
      | TStr k \<Rightarrow> Some (st, ColonAfter [] k)
      | _ \<Rightarrow> None)"
| "step st (Key acc) t = (case t of TStr k \<Rightarrow> Some (st, ColonAfter acc k) | _ \<Rightarrow> None)"
| "step st (ColonAfter acc k) t =
     (if t = TColon then Some (InObject acc k # st, Value) else None)"
| "step st (After v) t = closeValue st v t"

fun run :: "frame list \<Rightarrow> mode \<Rightarrow> token list \<Rightarrow> json option" where
  "run st m [] = (case m of After v \<Rightarrow> if st = [] then Some v else None | _ \<Rightarrow> None)"
| "run st m (t # ts) =
     (case step st m t of None \<Rightarrow> None | Some (st', m') \<Rightarrow> run st' m' ts)"

text \<open>\<^verbatim>\<open>JSON.parse\<close>: the value of the text, or the \<^verbatim>\<open>SyntaxError\<close> it throws.\<close>

definition JSON_parse :: "jsstring \<Rightarrow> js_error + json" where
  "JSON_parse text =
     (case tokenize text of
        None \<Rightarrow> Inl SyntaxError
      | Some ts \<Rightarrow>
          (case run [] Value ts of
             None \<Rightarrow> Inl SyntaxError
           | Some v \<Rightarrow> Inr v))"

subsection \<open>The initialiser of the tasks cell\<close>

text \<open>
  \<open>saved\<close> is the result of \<^verbatim>\<open>localStorage.getItem('tasks')\<close>: \<^verbatim>\<open>null\<close> or a
  string. The body of the \<^verbatim>\<open>try\<close> parses a truthy (non-empty) string and returns
  its value as it is; the \<^verbatim>\<open>catch\<close> turns any exception into the empty array.
\<close>

definition loadTasks_try :: "jsstring option \<Rightarrow> js_error + json" where
  "loadTasks_try saved =
     (case saved of
        None \<Rightarrow> Inr (JArray [])
      | Some text \<Rightarrow> if text \<noteq> [] then JSON_parse text else Inr (JArray []))"

definition loadTasks :: "jsstring option \<Rightarrow> js_error + json" where
  "loadTasks saved =
     (case loadTasks_try saved of
        Inl e \<Rightarrow> Inr (JArray [])
      | Inr v \<Rightarrow> Inr v)"

text \<open>
  Reading a property of a parsed object, and the shape the \<^verbatim>\<open>Task\<close> typedef asks
  for: an object with string \<^verbatim>\<open>id\<close> and \<^verbatim>\<open>title\<close>, boolean \<^verbatim>\<open>completed\<close> and
  numeric \<^verbatim>\<open>createdAt\<close> and \<^verbatim>\<open>updatedAt\<close>. A task collection is an array of such.
\<close>

definition getProp :: "(jsstring \<times> json) list \<Rightarrow> string \<Rightarrow> json option" where
  "getProp members k = map_of (rev members) (js k)"

definition isString :: "json option \<Rightarrow> bool" where
  "isString v = (case v of Some (JString x) \<Rightarrow> True | _ \<Rightarrow> False)"

definition isBoolean :: "json option \<Rightarrow> bool" where
  "isBoolean v = (case v of Some (JBool x) \<Rightarrow> True | _ \<Rightarrow> False)"

definition isNumber :: "json option \<Rightarrow> bool" where
  "isNumber v = (case v of Some (JNumber x) \<Rightarrow> True | _ \<Rightarrow> False)"

definition isTask :: "json \<Rightarrow> bool" where
  "isTask v =
     (case v of
        JObject members \<Rightarrow>
          isString (getProp members ''id'') \<and> isString (getProp members ''title'') \<and>
          isBoolean (getProp members ''completed'') \<and>
          isNumber (getProp members ''createdAt'') \<and> isNumber (getProp members ''updatedAt'')
      | _ \<Rightarrow> False)"

definition isTaskCollection :: "json \<Rightarrow> bool" where
  "isTaskCollection v = (case v of JArray vs \<Rightarrow> list_all isTask vs | _ \<Rightarrow> False)"

definition loadsCollection :: "jsstring option \<Rightarrow> bool" where
  "loadsCollection saved =
     (case loadTasks saved of Inl e \<Rightarrow> False | Inr v \<Rightarrow> isTaskCollection v)"

text \<open>
  The first render works on whatever the initialiser returned. Both \<^verbatim>\<open>filtered\<close> and
  \<^verbatim>\<open>remaining\<close> call \<^verbatim>\<open>tasks.filter\<close>, which only an array has; the callback of
  \<^verbatim>\<open>remaining\<close> reads \<^verbatim>\<open>t.completed\<close>, which throws for \<^verbatim>\<open>null\<close> and is
  \<^verbatim>\<open>undefined\<close> for every value without that property.
\<close>

definition truthy :: "json option \<Rightarrow> bool" where
  "truthy v =
     (case v of
        None \<Rightarrow> False
      | Some JNull \<Rightarrow> False
      | Some (JBool b) \<Rightarrow> b
      | Some (JNumber n) \<Rightarrow> n \<noteq> 0
      | Some (JString str) \<Rightarrow> str \<noteq> []
      | Some (JArray vs) \<Rightarrow> True
      | Some (JObject ms) \<Rightarrow> True)"

definition completedOf :: "json \<Rightarrow> js_error + bool" where
  "completedOf t =
     (case t of
        JNull \<Rightarrow> Inl TypeError
      | JObject ms \<Rightarrow> Inr (truthy (getProp ms ''completed''))
      | _ \<Rightarrow> Inr False)"

definition remaining_raw :: "json \<Rightarrow> js_error + nat" where
  "remaining_raw v =
     (case v of
        JArray ts \<Rightarrow>
          if list_ex (\<lambda>t. completedOf t = Inl TypeError) ts then Inl TypeError
          else Inr (length (filter (\<lambda>t. completedOf t = Inr False) ts))
      | _ \<Rightarrow> Inl TypeError)"

text \<open>A task as the object that \<open>addTask\<close> builds, members in the order of the source.\<close>

definition taskValue :: "task \<Rightarrow> json" where
  "taskValue t =
     JObject [(js ''id'', JString (id_t t)), (js ''title'', JString (title t)),
              (js ''completed'', JBool (completed t)),
              (js ''createdAt'', JNumber (of_int (createdAt t))),
              (js ''updatedAt'', JNumber (of_int (updatedAt t)))]"

text \<open>The two tasks of the specification's examples, and a session holding them.\<close>

definition buyMilk :: task where
  "buyMilk = \<lparr>id_t = js ''a'', title = js ''Buy milk'', completed = False,
              createdAt = 1, updatedAt = 1\<rparr>"

definition payBills :: task where
  "payBills = \<lparr>id_t = js ''b'', title = js ''Pay bills'', completed = True,
               createdAt = 2, updatedAt = 3\<rparr>"

definition exampleState :: state where
  "exampleState = initialState None [payBills, buyMilk]"

text \<open>
  The identifiers that a run of \<open>addTasks\<close> puts into the collection: those drawn for
  the calls whose trimmed title is not empty, in call order.
\<close>

definition acceptedIds :: "(jsstring \<times> int \<times> jsstring) list \<Rightarrow> jsstring list" where
  "acceptedIds adds =
     map (\<lambda>(ttl, now, newId). newId) (filter (\<lambda>(ttl, now, newId). trim ttl \<noteq> []) adds)"

text \<open>
  A task whose id is the empty string, which \<^verbatim>\<open>uid()\<close> returns when
  \<^verbatim>\<open>Math.random()\<close> is \<^verbatim>\<open>0\<close> (\<^verbatim>\<open>"0".slice(2, 10)\<close>), and a session in which it
  is under edit with a blank buffer.
\<close>

definition noIdTask :: task where
  "noIdTask = \<lparr>id_t = [], title = js ''Buy milk'', completed = False,
               createdAt = 1, updatedAt = 1\<rparr>"

definition blankEditOfNoId :: state where
  "blankEditOfNoId = (beginEdit noIdTask (initialState None [noIdTask]))\<lparr>editingTitle := js ''  ''\<rparr>"

section \<open>Auxiliary facts\<close>

lemma includes_js_sublist: "includes_js s q \<longleftrightarrow> sublist q s"
  by (induction s) (simp_all add: sublist_Cons_right)

lemma passes_code:
  "(if f = Active then \<not> completed t else if f = Completed then completed t else True)
     = spec_passes f t"
  by (cases f) simp_all

lemma mapWithClock_unless_present:
  "x \<notin> id_t ` set ts \<Longrightarrow> mapWithClock (\<lambda>t. id_t t = x) f clock k ts = ts"
  by (induction ts arbitrary: k) auto

lemma filter_unless_present:
  "x \<notin> id_t ` set ts \<Longrightarrow> filter (\<lambda>t. id_t t \<noteq> x) ts = ts"
  by (induction ts) auto

section \<open>Adding a task\<close>

text \<open>
  C4. \<open>addTask\<close> trims the title. When nothing is left the collection is unchanged.
  Otherwise the collection is the old one with one task put in front: its title is the
  trimmed title, it is not completed, and its two timestamps are the same clock reading.
\<close>

theorem addTask_prepends_trimmed:
  "tasks (addTask ttl now newId s) =
     (if trim ttl = [] then tasks s
      else \<lparr>id_t = newId, title = trim ttl, completed = False,
             createdAt = now, updatedAt = now\<rparr> # tasks s)"
  by (simp add: addTask_def Let_def)

theorem addTask_prepends_trimmed_witness:
  "tasks (addTask (js ''   '') 7 (js ''k3'') (initialState None [])) = [] \<and>
   tasks (addTask (js ''  Buy milk  '') 7 (js ''k3'') (initialState None [])) =
     [\<lparr>id_t = js ''k3'', title = js ''Buy milk'', completed = False,
       createdAt = 7, updatedAt = 7\<rparr>]"
  using addTask_prepends_trimmed [of "js ''   ''" 7 "js ''k3''" "initialState None []"]
        addTask_prepends_trimmed [of "js ''  Buy milk  ''" 7 "js ''k3''" "initialState None []"]
  by (simp add: trim_def isWhiteSpace_def js_def initialState_def)

section \<open>Clearing completed tasks\<close>

text \<open>
  C8. After \<open>clearCompleted\<close> no task of the collection is completed; the tasks that
  were not completed are all still there, unchanged and in their order; and nothing
  else is in the collection.
\<close>

theorem clearCompleted_keeps_active:
  "(\<forall>t \<in> set (tasks (clearCompleted s)). \<not> completed t) \<and>
   tasks (clearCompleted s) = filter (\<lambda>t. \<not> completed t) (tasks s) \<and>
   subseq (tasks (clearCompleted s)) (tasks s) \<and>
   mset (tasks s) = mset (tasks (clearCompleted s)) + mset (filter completed (tasks s))"
  by (simp add: clearCompleted_def)

theorem clearCompleted_keeps_active_witness:
  "tasks (clearCompleted exampleState) = [buyMilk] \<and> \<not> completed buyMilk"
  using clearCompleted_keeps_active [of exampleState]
  by (simp add: exampleState_def initialState_def buyMilk_def payBills_def clearCompleted_def)

section \<open>The edit life cycle\<close>

text \<open>
  C9. With no edit in progress (\<open>editingId\<close> is \<^verbatim>\<open>null\<close>) \<open>commitEdit\<close> returns
  the state it was given: the collection, the edit buffer and every other cell are as
  before, whatever the buffer holds.
\<close>

theorem commitEdit_idle_noop:
  "editingId s = None \<Longrightarrow> commitEdit clock s = s"
  by (simp add: commitEdit_def)

theorem commitEdit_idle_noop_witness:
  "editingId (exampleState\<lparr>editingTitle := js ''left over''\<rparr>) = None \<and>
   commitEdit (\<lambda>k. 9) (exampleState\<lparr>editingTitle := js ''left over''\<rparr>) =
     exampleState\<lparr>editingTitle := js ''left over''\<rparr>"
  using commitEdit_idle_noop [of "exampleState\<lparr>editingTitle := js ''left over''\<rparr>" "\<lambda>k. 9"]
  by (simp add: exampleState_def initialState_def)

text \<open>
  C10. \<open>clearCompleted\<close> replaces the collection and nothing else, so the edit state
  stays as it was. When the task under edit is completed (and so is every task sharing
  its id), \<open>editingId\<close> afterwards names a task that is no longer in the collection.
  \<open>removeTask\<close> on the task under edit, in contrast, clears the edit state.
\<close>

theorem clearCompleted_leaves_edit_state:
  "clearCompleted s = s\<lparr>tasks := tasks (clearCompleted s)\<rparr> \<and>
   editingId (clearCompleted s) = editingId s \<and>
   editingTitle (clearCompleted s) = editingTitle s \<and>
   (editingId s = Some x \<and> x \<in> id_t ` set (tasks s) \<and>
    (\<forall>t \<in> set (tasks s). id_t t = x \<longrightarrow> completed t) \<longrightarrow>
      editingId (clearCompleted s) = Some x \<and>
      x \<notin> id_t ` set (tasks (clearCompleted s))) \<and>
   (editingId s = Some x \<longrightarrow>
      editingId (removeTask x s) = None \<and> editingTitle (removeTask x s) = [])"
  by (auto simp add: clearCompleted_def removeTask_def)

theorem clearCompleted_leaves_edit_state_witness:
  "editingId (beginEdit payBills exampleState) = Some (js ''b'') \<and>
   tasks (beginEdit payBills exampleState) = [payBills, buyMilk] \<and>
   id_t payBills = js ''b'' \<and> completed payBills \<and> id_t buyMilk = js ''a'' \<and>
   editingId (clearCompleted (beginEdit payBills exampleState)) = Some (js ''b'') \<and>
   tasks (clearCompleted (beginEdit payBills exampleState)) = [buyMilk] \<and>
   editingId (removeTask (js ''b'') (beginEdit payBills exampleState)) = None"
  using clearCompleted_leaves_edit_state [of "beginEdit payBills exampleState" "js ''b''"]
  by (simp add: exampleState_def initialState_def beginEdit_def buyMilk_def payBills_def
        clearCompleted_def removeTask_def js_def)

text \<open>
  With a non-empty id under edit and a buffer that trims to nothing, \<open>commitEdit\<close> is
  \<open>removeTask\<close> of that id, on the whole state.
\<close>

lemma commitEdit_blank_removes:
  "editingId s = Some x \<Longrightarrow> x \<noteq> [] \<Longrightarrow> trim (editingTitle s) = [] \<Longrightarrow>
     commitEdit clock s = removeTask x s"
  by (simp add: commitEdit_def)

text \<open>
  C1. Committing a blank title is meant to delete the task under edit, as \<open>removeTask\<close>
  does. For the task whose id is the empty string the guard of \<open>commitEdit\<close> takes the
  edit for no edit: the commit changes nothing and the task stays, while \<open>removeTask\<close>
  of the same id empties the collection.
\<close>

theorem commitEdit_blank_keeps_empty_id:
  "editingId blankEditOfNoId = Some (id_t noIdTask) \<and>
   trim (editingTitle blankEditOfNoId) = [] \<and>
   commitEdit (\<lambda>k. 9) blankEditOfNoId = blankEditOfNoId \<and>
   tasks (commitEdit (\<lambda>k. 9) blankEditOfNoId) = [noIdTask] \<and>
   tasks (removeTask (id_t noIdTask) blankEditOfNoId) = []"
  by (simp add: blankEditOfNoId_def noIdTask_def beginEdit_def initialState_def
        commitEdit_def removeTask_def trim_def isWhiteSpace_def js_def)

text \<open>
  C7. An id that no task carries: \<open>toggleTask\<close>, \<open>removeTask\<close> and \<open>commitEdit\<close>
  (with any buffered title, blank or not) all leave the collection as it is. None of the
  three has a failing branch.
\<close>

theorem stale_id_noop:
  "x \<notin> id_t ` set (tasks s) \<Longrightarrow>
     tasks (toggleTask x clock s) = tasks s \<and>
     tasks (removeTask x s) = tasks s \<and>
     tasks (commitEdit clock (s\<lparr>editingId := Some x, editingTitle := ttl\<rparr>)) = tasks s"
  by (simp add: toggleTask_def removeTask_def commitEdit_def Let_def
        mapWithClock_unless_present filter_unless_present)

theorem stale_id_noop_witness:
  "tasks exampleState = [payBills, buyMilk] \<and>
   id_t payBills \<noteq> js ''zz'' \<and> id_t buyMilk \<noteq> js ''zz'' \<and> trim (js ''x'') = js ''x'' \<and>
   tasks (toggleTask (js ''zz'') (\<lambda>k. 9) exampleState) = [payBills, buyMilk] \<and>
   tasks (removeTask (js ''zz'') exampleState) = [payBills, buyMilk] \<and>
   tasks (commitEdit (\<lambda>k. 9)
      (exampleState\<lparr>editingId := Some (js ''zz''), editingTitle := js ''x''\<rparr>))
     = [payBills, buyMilk]"
  using stale_id_noop [of "js ''zz''" exampleState "\<lambda>k. 9" "js ''x''"]
  by (simp add: exampleState_def initialState_def buyMilk_def payBills_def js_def
       trim_def isWhiteSpace_def)

section \<open>Toggling\<close>

lemma length_mapWithClock: "length (mapWithClock hit f clock k ts) = length ts"
  by (induction ts arbitrary: k) auto

lemma mapWithClock_nth:
  "i < length ts \<Longrightarrow>
     mapWithClock hit f clock k ts ! i =
       (if hit (ts ! i) then f (clock (k + length (filter hit (take i ts)))) (ts ! i)
        else ts ! i)"
proof (induction ts arbitrary: k i)
  case Nil
  then show ?case by simp
next
  case (Cons t ts)
  show ?case
  proof (cases i)
    case 0
    then show ?thesis by simp
  next
    case (Suc j)
    with Cons.prems have "j < length ts" by simp
    from Cons.IH [OF this] Suc show ?thesis by simp
  qed
qed

lemma count_hits_by_id:
  assumes "map id_t ts = map id_t us"
  shows "length (filter (\<lambda>t. id_t t = x) (take i ts))
           = length (filter (\<lambda>t. id_t t = x) (take i us))"
proof -
  have "length (filter (\<lambda>t. id_t t = x) ws) = length (filter (\<lambda>y. y = x) (map id_t ws))"
    for ws
    by (induction ws) auto
  moreover have "map id_t (take i ts) = map id_t (take i us)"
    using assms by (simp add: take_map [symmetric])
  ultimately show ?thesis by metis
qed

lemma toggle_keeps_ids:
  "map id_t (mapWithClock hit (\<lambda>now t. t\<lparr>completed := \<not> completed t, updatedAt := now\<rparr>)
      clock k ts) = map id_t ts"
  by (induction ts arbitrary: k) auto

lemma toggle_toggle_completed:
  "map completed
     (mapWithClock (\<lambda>t. id_t t = x) (\<lambda>now t. t\<lparr>completed := \<not> completed t, updatedAt := now\<rparr>)
        clock2 k2
        (mapWithClock (\<lambda>t. id_t t = x)
           (\<lambda>now t. t\<lparr>completed := \<not> completed t, updatedAt := now\<rparr>) clock1 k1 ts))
   = map completed ts"
  by (induction ts arbitrary: k1 k2) auto

lemma toggle_toggle_updatedAt:
  "(\<forall>i j. clock1 i \<le> clock2 j) \<Longrightarrow>
   list_all2 (\<lambda>t1 t2. updatedAt t1 \<le> updatedAt t2)
     (mapWithClock (\<lambda>t. id_t t = x)
        (\<lambda>now t. t\<lparr>completed := \<not> completed t, updatedAt := now\<rparr>) clock1 k1 ts)
     (mapWithClock (\<lambda>t. id_t t = x) (\<lambda>now t. t\<lparr>completed := \<not> completed t, updatedAt := now\<rparr>)
        clock2 k2
        (mapWithClock (\<lambda>t. id_t t = x)
           (\<lambda>now t. t\<lparr>completed := \<not> completed t, updatedAt := now\<rparr>) clock1 k1 ts))"
  by (induction ts arbitrary: k1 k2) auto

text \<open>
  One toggle, task by task: a task with the id gets its flag flipped and the clock
  reading taken for it (the \<open>n\<close>-th reading for the task with \<open>n\<close> matching tasks in
  front of it); every other task is untouched.
\<close>

lemma toggle_nth:
  "i < length (tasks s) \<Longrightarrow>
     tasks (toggleTask x clock s) ! i =
       (if id_t (tasks s ! i) = x
        then (tasks s ! i)\<lparr>completed := \<not> completed (tasks s ! i),
               updatedAt := clock (length (filter (\<lambda>t. id_t t = x) (take i (tasks s))))\<rparr>
        else tasks s ! i)"
  by (simp add: toggleTask_def mapWithClock_nth)

lemma toggle_toggle_nth:
  assumes "i < length (tasks s)"
  shows "tasks (toggleTask x clock2 (toggleTask x clock1 s)) ! i =
           (if id_t (tasks s ! i) = x
            then (tasks s ! i)\<lparr>updatedAt :=
                   clock2 (length (filter (\<lambda>t. id_t t = x) (take i (tasks s))))\<rparr>
            else tasks s ! i)"
proof -
  let ?s1 = "toggleTask x clock1 s"
  have len: "length (tasks ?s1) = length (tasks s)"
    by (simp add: toggleTask_def length_mapWithClock)
  have ids: "map id_t (tasks ?s1) = map id_t (tasks s)"
    by (simp add: toggleTask_def toggle_keeps_ids)
  have cnt: "length (filter (\<lambda>t. id_t t = x) (take i (tasks ?s1)))
      = length (filter (\<lambda>t. id_t t = x) (take i (tasks s)))"
    by (rule count_hits_by_id [OF ids])
  have one: "tasks ?s1 ! i =
        (if id_t (tasks s ! i) = x
         then (tasks s ! i)\<lparr>completed := \<not> completed (tasks s ! i),
                updatedAt := clock1 (length (filter (\<lambda>t. id_t t = x) (take i (tasks s))))\<rparr>
         else tasks s ! i)"
    using assms by (rule toggle_nth)
  have two: "tasks (toggleTask x clock2 ?s1) ! i =
        (if id_t (tasks ?s1 ! i) = x
         then (tasks ?s1 ! i)\<lparr>completed := \<not> completed (tasks ?s1 ! i),
                updatedAt := clock2 (length (filter (\<lambda>t. id_t t = x) (take i (tasks ?s1))))\<rparr>
         else tasks ?s1 ! i)"
    using assms len by (intro toggle_nth) simp
  show ?thesis
    unfolding two cnt one by simp
qed

text \<open>
  C6, as the code has it. A toggle keeps the length of the collection, leaves every
  task without the id untouched, and for a task with the id flips \<open>completed\<close> and sets
  \<open>updatedAt\<close> to the clock reading taken for that task. Two toggles of the same id
  therefore give back every task with its original \<open>completed\<close> flag and id, a task
  with the id carrying the reading of the second toggle. No \<open>updatedAt\<close> decreases from
  the first toggle to the second when no reading of the second toggle is earlier than
  a reading of the first.
\<close>

theorem toggle_twice_restores:
  "length (tasks (toggleTask x clock1 s)) = length (tasks s) \<and>
   length (tasks (toggleTask x clock2 (toggleTask x clock1 s))) = length (tasks s) \<and>
   (\<forall>i < length (tasks s).
      tasks (toggleTask x clock1 s) ! i =
        (if id_t (tasks s ! i) = x
         then (tasks s ! i)\<lparr>completed := \<not> completed (tasks s ! i),
                updatedAt := clock1 (length (filter (\<lambda>t. id_t t = x) (take i (tasks s))))\<rparr>
         else tasks s ! i) \<and>
      tasks (toggleTask x clock2 (toggleTask x clock1 s)) ! i =
        (if id_t (tasks s ! i) = x
         then (tasks s ! i)\<lparr>updatedAt :=
                clock2 (length (filter (\<lambda>t. id_t t = x) (take i (tasks s))))\<rparr>
         else tasks s ! i)) \<and>
   map completed (tasks (toggleTask x clock2 (toggleTask x clock1 s)))
     = map completed (tasks s) \<and>
   map id_t (tasks (toggleTask x clock2 (toggleTask x clock1 s))) = map id_t (tasks s) \<and>
   ((\<forall>i j. clock1 i \<le> clock2 j) \<longrightarrow>
      list_all2 (\<lambda>t1 t2. updatedAt t1 \<le> updatedAt t2)
        (tasks (toggleTask x clock1 s)) (tasks (toggleTask x clock2 (toggleTask x clock1 s))))"
proof -
  have lens: "length (tasks (toggleTask x clock1 s)) = length (tasks s)"
    "length (tasks (toggleTask x clock2 (toggleTask x clock1 s))) = length (tasks s)"
    by (simp_all add: toggleTask_def length_mapWithClock)
  have each: "\<forall>i < length (tasks s).
      tasks (toggleTask x clock1 s) ! i =
        (if id_t (tasks s ! i) = x
         then (tasks s ! i)\<lparr>completed := \<not> completed (tasks s ! i),
                updatedAt := clock1 (length (filter (\<lambda>t. id_t t = x) (take i (tasks s))))\<rparr>
         else tasks s ! i) \<and>
      tasks (toggleTask x clock2 (toggleTask x clock1 s)) ! i =
        (if id_t (tasks s ! i) = x
         then (tasks s ! i)\<lparr>updatedAt :=
                clock2 (length (filter (\<lambda>t. id_t t = x) (take i (tasks s))))\<rparr>
         else tasks s ! i)"
    using toggle_nth [of _ s x clock1] toggle_toggle_nth [of _ s x clock2 clock1] by blast
  have flags: "map completed (tasks (toggleTask x clock2 (toggleTask x clock1 s)))
      = map completed (tasks s)"
    by (simp add: toggleTask_def toggle_toggle_completed)
  have ids: "map id_t (tasks (toggleTask x clock2 (toggleTask x clock1 s)))
      = map id_t (tasks s)"
    by (simp add: toggleTask_def toggle_keeps_ids)
  have mono: "list_all2 (\<lambda>t1 t2. updatedAt t1 \<le> updatedAt t2)
        (tasks (toggleTask x clock1 s)) (tasks (toggleTask x clock2 (toggleTask x clock1 s)))"
    if "\<forall>i j. clock1 i \<le> clock2 j"
    using that by (simp add: toggleTask_def toggle_toggle_updatedAt)
  from lens each flags ids mono show ?thesis by blast
qed

theorem toggle_twice_restores_witness:
  "(5::int) \<le> 8 \<and>
   tasks exampleState = [payBills, buyMilk] \<and>
   tasks (toggleTask (js ''a'') (\<lambda>k. 5) exampleState) =
     [payBills, buyMilk\<lparr>completed := True, updatedAt := 5\<rparr>] \<and>
   tasks (toggleTask (js ''a'') (\<lambda>k. 8) (toggleTask (js ''a'') (\<lambda>k. 5) exampleState)) =
     [payBills, buyMilk\<lparr>updatedAt := 8\<rparr>]"
  using toggle_twice_restores [of "js ''a''" "\<lambda>k. 5" exampleState "\<lambda>k. 8"]
  by (simp add: toggleTask_def exampleState_def initialState_def buyMilk_def payBills_def
        js_def)

text \<open>
  C6 as stated fails when the clock is set back between the two toggles: the second
  toggle stores the earlier reading.
\<close>

theorem toggle_twice_clock_set_back:
  "\<not> list_all2 (\<lambda>t1 t2. updatedAt t1 \<le> updatedAt t2)
        (tasks (toggleTask (js ''a'') (\<lambda>k. 5) exampleState))
        (tasks (toggleTask (js ''a'') (\<lambda>k. 3) (toggleTask (js ''a'') (\<lambda>k. 5) exampleState)))"
  by (simp add: toggleTask_def exampleState_def initialState_def buyMilk_def payBills_def
        js_def)

section \<open>Identifiers\<close>

lemma ids_addTasks:
  "map id_t (tasks (addTasks adds s)) = rev (acceptedIds adds) @ map id_t (tasks s)"
  by (induction adds s rule: addTasks.induct) (simp_all add: addTask_def Let_def acceptedIds_def)

text \<open>
  C2, as the code has it. \<open>addTask\<close> stores the identifier it draws without looking at
  the collection: after any run of adds the ids of the collection are the identifiers
  drawn for the non-blank adds, newest first, followed by the ids that were already
  there. They are pairwise distinct exactly when the ids that were already there are
  pairwise distinct, the identifiers drawn for the non-blank adds are pairwise distinct,
  and no drawn identifier equals an id that was already there.
\<close>

theorem addTasks_ids_distinct:
  "map id_t (tasks (addTasks adds s)) = rev (acceptedIds adds) @ map id_t (tasks s) \<and>
   (distinct (map id_t (tasks (addTasks adds s))) \<longleftrightarrow>
      distinct (map id_t (tasks s)) \<and> distinct (acceptedIds adds) \<and>
      set (acceptedIds adds) \<inter> id_t ` set (tasks s) = {})"
  by (auto simp add: ids_addTasks)

theorem addTasks_ids_distinct_witness:
  "distinct (map id_t (tasks exampleState)) \<and>
   acceptedIds [(js ''A'', 1, js ''i''), (js '' '', 2, js ''i''), (js ''B'', 3, js ''k'')]
     = [js ''i'', js ''k''] \<and>
   map id_t (tasks (addTasks [(js ''A'', 1, js ''i''), (js '' '', 2, js ''i''), (js ''B'', 3, js ''k'')]
      exampleState)) = [js ''k'', js ''i'', js ''b'', js ''a''] \<and>
   distinct (map id_t (tasks (addTasks
      [(js ''A'', 1, js ''i''), (js '' '', 2, js ''i''), (js ''B'', 3, js ''k'')] exampleState)))"
  using addTasks_ids_distinct
    [of "[(js ''A'', 1, js ''i''), (js '' '', 2, js ''i''), (js ''B'', 3, js ''k'')]" exampleState]
  by (simp add: acceptedIds_def addTask_def exampleState_def initialState_def buyMilk_def
        payBills_def js_def trim_def isWhiteSpace_def)

text \<open>
  C2 as stated fails when \<^verbatim>\<open>uid()\<close> returns the same string twice, as it does when
  \<^verbatim>\<open>Math.random()\<close> yields \<^verbatim>\<open>0.5\<close> both times (\<^verbatim>\<open>"0.i".slice(2, 10)\<close>).
\<close>

theorem addTasks_same_draw_collides:
  "\<not> distinct (map id_t (tasks
       (addTasks [(js ''A'', 1, js ''i''), (js ''B'', 2, js ''i'')] (initialState None []))))"
  by (simp add: addTask_def initialState_def js_def trim_def isWhiteSpace_def)

section \<open>The filtered view\<close>

text \<open>
  C5. \<open>filtered\<close> is the projection of the specification: it depends on the
  collection, the tab and the query only, keeps the tasks that pass the tab and whose
  lower-cased title contains the lower-cased trimmed query, in the order of the
  collection. When the query trims to nothing every task that passes the tab is kept.
\<close>

theorem filtered_is_projection:
  "filtered lower s = spec_filterAndSearch lower (tasks s) (filter_s s) (query s) \<and>
   (lower [] = [] \<and> trim (query s) = [] \<longrightarrow>
      filtered lower s = filter (spec_passes (filter_s s)) (tasks s)) \<and>
   subseq (filtered lower s) (tasks s)"
proof -
  have match: "(if lower (trim (query s)) \<noteq> []
                then includes_js (lower (title t)) (lower (trim (query s))) else True)
      = spec_matches lower (query s) (title t)" for t
    by (simp add: spec_matches_def includes_js_sublist)
  have eq: "filtered lower s = spec_filterAndSearch lower (tasks s) (filter_s s) (query s)"
    unfolding filtered_def spec_filterAndSearch_def Let_def match passes_code
    by (simp add: conj_commute)
  have blank: "filtered lower s = filter (spec_passes (filter_s s)) (tasks s)"
    if "lower [] = []" "trim (query s) = []"
    using that by (simp add: filtered_def passes_code)
  have sub: "subseq (filtered lower s) (tasks s)"
    unfolding eq spec_filterAndSearch_def by simp
  from eq blank sub show ?thesis by blast
qed

theorem filtered_is_projection_witness:
  "spec_filterAndSearch asciiLower [payBills, buyMilk] Active (js '' MILK '') = [buyMilk] \<and>
   spec_filterAndSearch asciiLower [payBills, buyMilk] Completed (js ''milk'') = [] \<and>
   asciiLower [] = [] \<and> trim (js ''  '') = [] \<and>
   filtered asciiLower (exampleState\<lparr>query := js ''  ''\<rparr>) = [payBills, buyMilk]"
  using filtered_is_projection
          [of asciiLower "exampleState\<lparr>filter_s := Active, query := js '' MILK ''\<rparr>"]
        filtered_is_projection
          [of asciiLower "exampleState\<lparr>filter_s := Completed, query := js ''milk''\<rparr>"]
        filtered_is_projection [of asciiLower "exampleState\<lparr>query := js ''  ''\<rparr>"]
  by (simp add: filtered_def exampleState_def initialState_def buyMilk_def payBills_def js_def
        trim_def isWhiteSpace_def asciiLower_def)

section \<open>Loading the persisted tasks\<close>

lemmas json_text_defs =
  JSON_parse_def js_def isJsonSpace_def isDigit_def lexNumber_def lexUnsigned_def
  lexInt_def lexFrac_def lexExp_def lexExpDigits_def decimalValue_def digitsValue_def
  hex4_def hexValue_def escape_def

text \<open>
  What the initialiser does on every input. No exception leaves it. It yields the
  empty collection when the key is absent, holds the empty string, or holds text that
  \<^verbatim>\<open>JSON.parse\<close> rejects. Text that \<^verbatim>\<open>JSON.parse\<close> accepts yields the parsed value as it
  is, so the result is a task collection exactly when that value is one.
\<close>

lemma loadTasks_falls_back:
  "(\<exists>v. loadTasks saved = Inr v) \<and>
   (saved = None \<or> saved = Some [] \<longrightarrow> loadTasks saved = Inr (JArray [])) \<and>
   (saved = Some text \<and> JSON_parse text = Inl e \<longrightarrow> loadTasks saved = Inr (JArray [])) \<and>
   (saved = Some text \<and> text \<noteq> [] \<and> JSON_parse text = Inr v \<longrightarrow>
      loadTasks saved = Inr v \<and> (loadsCollection saved \<longleftrightarrow> isTaskCollection v))"
  by (auto simp add: loadTasks_def loadTasks_try_def loadsCollection_def
        split: option.splits sum.splits)

lemma loadTasks_examples:
  "loadTasks None = Inr (JArray []) \<and>
   loadTasks (Some []) = Inr (JArray []) \<and>
   JSON_parse (js ''[{\"id\":\"a\",'') = Inl SyntaxError \<and>
   loadTasks (Some (js ''[{\"id\":\"a\",'')) = Inr (JArray []) \<and>
   JSON_parse (js ''[{\"id\":\"a\",\"title\":\"Buy milk\",\"completed\":false,\"createdAt\":1,\"updatedAt\":1}]'')
     = Inr (JArray [taskValue buyMilk]) \<and>
   loadTasks (Some (js ''[{\"id\":\"a\",\"title\":\"Buy milk\",\"completed\":false,\"createdAt\":1,\"updatedAt\":1}]''))
     = Inr (JArray [taskValue buyMilk]) \<and>
   isTaskCollection (JArray [taskValue buyMilk])"
  using loadTasks_falls_back [of None]
        loadTasks_falls_back [of "Some []"]
        loadTasks_falls_back [of "Some (js ''[{\"id\":\"a\",'')" "js ''[{\"id\":\"a\",''" SyntaxError]
        loadTasks_falls_back [of "Some (js ''[{\"id\":\"a\",\"title\":\"Buy milk\",\"completed\":false,\"createdAt\":1,\"updatedAt\":1}]'')"
          "js ''[{\"id\":\"a\",\"title\":\"Buy milk\",\"completed\":false,\"createdAt\":1,\"updatedAt\":1}]''"
          _ "JArray [taskValue buyMilk]"]
  by (simp add: json_text_defs taskValue_def buyMilk_def isTaskCollection_def isTask_def
        getProp_def isString_def isBoolean_def isNumber_def)

text \<open>
  Where the claim holds: whenever the initialiser falls back, and whenever the stored
  text encodes a task collection, the loaded value is a task collection and the first
  render computes \<^verbatim>\<open>remaining\<close> without an exception.
\<close>

lemma task_renders: "isTask t \<Longrightarrow> completedOf t \<noteq> Inl TypeError"
  by (cases t) (simp_all add: isTask_def completedOf_def)

lemma collection_renders: "isTaskCollection v \<Longrightarrow> \<exists>n. remaining_raw v = Inr n"
proof (cases v)
  case (JArray ts)
  assume "isTaskCollection v"
  with JArray have "list_all isTask ts" by (simp add: isTaskCollection_def)
  then have "\<not> list_ex (\<lambda>t. completedOf t = Inl TypeError) ts"
    by (auto simp: list_all_iff list_ex_iff dest: task_renders)
  with JArray show ?thesis by (simp add: remaining_raw_def)
qed (simp_all add: isTaskCollection_def)

lemma fallback_loads_and_renders:
  "saved = None \<or> saved = Some [] \<or> (saved = Some text \<and> JSON_parse text = Inl e) \<Longrightarrow>
     loadTasks saved = Inr (JArray []) \<and> loadsCollection saved \<and>
     remaining_raw (JArray []) = Inr 0"
  by (auto simp add: loadTasks_def loadTasks_try_def loadsCollection_def isTaskCollection_def
        remaining_raw_def split: option.splits sum.splits)

lemma stored_collection_loads_and_renders:
  "text \<noteq> [] \<Longrightarrow> JSON_parse text = Inr v \<Longrightarrow> isTaskCollection v \<Longrightarrow>
     loadTasks (Some text) = Inr v \<and> loadsCollection (Some text) \<and>
     (\<exists>n. remaining_raw v = Inr n)"
  by (simp add: loadTasks_def loadTasks_try_def loadsCollection_def collection_renders)

text \<open>
  C3. Loading is meant to yield a task collection for every content of the key and
  never to surface an error; the initialiser falls back to the empty collection both
  for a falsy value and for an exception. It misses stored text that is valid JSON but
  not an array of tasks: the text \<^verbatim>\<open>null\<close> parses, the initialiser returns \<^verbatim>\<open>null\<close>,
  which is no task collection, and the first render throws a \<^verbatim>\<open>TypeError\<close> because
  that value has no \<^verbatim>\<open>filter\<close>.
\<close>

theorem loadTasks_null_is_no_collection:
  "JSON_parse (js ''null'') = Inr JNull \<and>
   loadTasks (Some (js ''null'')) = Inr JNull \<and>
   \<not> isTaskCollection JNull \<and>
   \<not> loadsCollection (Some (js ''null'')) \<and>
   remaining_raw JNull = Inl TypeError"
  by (simp add: loadsCollection_def loadTasks_def loadTasks_try_def json_text_defs
        isTaskCollection_def remaining_raw_def)

end
